theory Spec2Isabelle
  imports Main "HOL-Library.Product_Lexorder" "HOL-Library.List_Lexorder" "HOL-Library.Char_ord"
begin

section \<open>The page and search store of services/db.py\<close>

text \<open>
  The class \<open>Database\<close> wraps one SQLite connection in autocommit mode
  (\<open>isolation_level = None\<close>): every \<open>execute\<close> takes effect at once. The store is
  modelled by the rows of its two tables; each method takes the store and returns the
  outcome of the call (an exception or a value) together with the store afterwards.

  Time is the local wall clock, an \<open>int\<close> counting microseconds (the resolution of
  \<open>datetime.now()\<close>). SQLite's \<open>DATETIME('now', 'localtime')\<close> is a text
  \<open>YYYY-MM-DD HH:MM:SS\<close>; the model keeps the whole second the text denotes.
\<close>

subsection \<open>Values, exceptions, configuration\<close>

datatype sql_value = Integer int | Text string | LocalTime int

type_synonym py_tuple = "sql_value list"

datatype py_error = ValueError | OverflowError | TypeError | OperationalError | IntegrityError

record config =
  DB_SAVE_SEARCHES :: bool
  DB_SAVE_PAGES :: bool
  DB_USE_SAVED_PAGES :: bool
  DB_PAGE_EXPIRATION_TIME :: string

text \<open>
  Modelled from the spec: the class \<open>WikiParser\<close> of tools/wikiparser is not part of the
  sources. The spec gives a page object a title and a text and says that it is
  reconstructable from the stored name and content alone; \<open>load_page\<close> calls the
  constructor as \<open>WikiParser(content, name)\<close>.
\<close>

record wiki_parser =
  page_text :: string
  page_title :: string

definition WikiParser :: "string \<Rightarrow> string \<Rightarrow> wiki_parser" where
  "WikiParser content name = \<lparr>page_text = content, page_title = name\<rparr>"

subsection \<open>The tables\<close>

text \<open>
  \<open>CREATE TABLE Pages (id INTEGER PRIMARY KEY, name TEXT UNIQUE, content TEXT, datetime DATETIME)\<close>
  and
  \<open>CREATE TABLE Searches (id INTEGER PRIMARY KEY, text TEXT, datetime DATETIME)\<close>.
\<close>

record page_row =
  P_id :: int
  P_name :: string
  P_content :: string
  P_datetime :: int

record search_row =
  S_id :: int
  S_text :: string
  S_datetime :: int

record database =
  Pages :: "page_row list"
  Searches :: "search_row list"

text \<open>The store that \<open>__create_tables\<close> leaves when the file was new.\<close>

definition create_tables :: database where
  "create_tables = \<lparr>Pages = [], Searches = []\<rparr>"

definition Pages_columns :: "(string \<times> (page_row \<Rightarrow> sql_value)) list" where
  "Pages_columns =
     [(''id'', \<lambda>r. Integer (P_id r)),
      (''name'', \<lambda>r. Text (P_name r)),
      (''content'', \<lambda>r. Text (P_content r)),
      (''datetime'', \<lambda>r. LocalTime (P_datetime r))]"

definition Searches_columns :: "(string \<times> (search_row \<Rightarrow> sql_value)) list" where
  "Searches_columns =
     [(''id'', \<lambda>r. Integer (S_id r)),
      (''text'', \<lambda>r. Text (S_text r)),
      (''datetime'', \<lambda>r. LocalTime (S_datetime r))]"

subsection \<open>Clock\<close>

definition datetime_now_localtime :: "int \<Rightarrow> int" where
  "datetime_now_localtime now = now div 1000000"

text \<open>\<open>datetime.fromisoformat\<close> on a stored text: the instant in microseconds.\<close>

definition fromisoformat :: "int \<Rightarrow> int" where
  "fromisoformat s = s * 1000000"

text \<open>
  The attribute \<open>seconds\<close> of a \<open>timedelta\<close>. Python normalises a difference into
  days, seconds (from 0 to 86399) and microseconds (from 0 to 999999); \<open>seconds\<close> is
  the middle component only.
\<close>

definition timedelta_seconds :: "int \<Rightarrow> int" where
  "timedelta_seconds d = (d mod 86400000000) div 1000000"

subsection \<open>The SQL statements\<close>

text \<open>SQL identifiers compare without regard to ASCII case.\<close>

definition ascii_lower :: "char \<Rightarrow> char" where
  "ascii_lower c =
     (let n = (of_char c :: nat) in if 65 \<le> n \<and> n \<le> 90 then char_of (n + 32) else c)"

definition ident_eq :: "string \<Rightarrow> string \<Rightarrow> bool" where
  "ident_eq a b = (map ascii_lower a = map ascii_lower b)"

fun lookup_column :: "(string \<times> 'a) list \<Rightarrow> string \<Rightarrow> 'a option" where
  "lookup_column [] c = None"
| "lookup_column ((n, f) # cs) c = (if ident_eq n c then Some f else lookup_column cs c)"

text \<open>
  A column reference \<open>q.c\<close> in a statement whose FROM clause is \<open>table alias\<close>:
  the qualifier has to be the alias and the column one of the table's, or preparing the
  statement fails (\<open>sqlite3.OperationalError\<close>: no such column).
\<close>

definition resolve ::
  "(string \<times> ('r \<Rightarrow> sql_value)) list \<Rightarrow> string \<Rightarrow> string \<times> string \<Rightarrow> py_error + ('r \<Rightarrow> sql_value)" where
  "resolve cols alias ref =
     (if ident_eq (fst ref) alias
      then (case lookup_column cols (snd ref) of
              Some f \<Rightarrow> Inr f
            | None \<Rightarrow> Inl OperationalError)
      else Inl OperationalError)"

fun resolve_all ::
  "(string \<times> ('r \<Rightarrow> sql_value)) list \<Rightarrow> string \<Rightarrow> (string \<times> string) list \<Rightarrow> py_error + ('r \<Rightarrow> sql_value) list" where
  "resolve_all cols alias [] = Inr []"
| "resolve_all cols alias (ref # refs) =
     (case resolve cols alias ref of
        Inl e \<Rightarrow> Inl e
      | Inr f \<Rightarrow> (case resolve_all cols alias refs of
                   Inl e \<Rightarrow> Inl e
                 | Inr fs \<Rightarrow> Inr (f # fs)))"

text \<open>
  The order of values under ORDER BY: numbers before texts, numbers by value, texts
  bytewise. A timestamp text sorts with the texts, in the order of time.
\<close>

fun sql_key :: "sql_value \<Rightarrow> nat \<times> int \<times> string" where
  "sql_key (Integer i) = (1, i, [])"
| "sql_key (Text s) = (2, 0, s)"
| "sql_key (LocalTime t) = (2, t, [])"

datatype direction = ASC | DESC

text \<open>
  Binding a Python \<open>int\<close> to a parameter: the sqlite3 module refuses a value outside
  the 64-bit range.
\<close>

definition bind_int :: "int \<Rightarrow> py_error + int" where
  "bind_int n = (if - (2 ^ 63) \<le> n \<and> n < 2 ^ 63 then Inr n else Inl OverflowError)"

text \<open>LIMIT n: a negative n is no limit.\<close>

definition sql_limit :: "int \<Rightarrow> 'a list \<Rightarrow> 'a list" where
  "sql_limit n xs = (if n < 0 then xs else take (nat n) xs)"

text \<open>
  ORDER BY: ascending is a sort on the key, descending its reverse. The key of the source's
  statements is the primary key, so no two rows tie.
\<close>

definition order_by :: "('r \<Rightarrow> sql_value) \<Rightarrow> direction \<Rightarrow> 'r list \<Rightarrow> 'r list" where
  "order_by f d rows =
     (case d of
        ASC \<Rightarrow> sort_key (\<lambda>r. sql_key (f r)) rows
      | DESC \<Rightarrow> rev (sort_key (\<lambda>r. sql_key (f r)) rows))"

text \<open>
  \<open>SELECT cols FROM table alias ORDER BY ref dir [LIMIT ?]\<close>, the statement of
  \<open>get_saved_pages\<close> and \<open>get_saved_searches\<close>. The statement is prepared first
  (every reference resolved), then the parameter is bound, then the rows are read.
\<close>

definition select_ordered ::
  "(string \<times> ('r \<Rightarrow> sql_value)) list \<Rightarrow> string \<Rightarrow> (string \<times> string) list \<Rightarrow>
   (string \<times> string) \<Rightarrow> direction \<Rightarrow> int option \<Rightarrow> 'r list \<Rightarrow> py_error + py_tuple list" where
  "select_ordered cols alias refs key dir limit rows =
     (case resolve_all cols alias refs of
        Inl e \<Rightarrow> Inl e
      | Inr fs \<Rightarrow>
         (case resolve cols alias key of
            Inl e \<Rightarrow> Inl e
          | Inr k \<Rightarrow>
             (case limit of
                None \<Rightarrow> Inr (map (\<lambda>r. map (\<lambda>f. f r) fs) (order_by k dir rows))
              | Some l \<Rightarrow>
                 (case bind_int l of
                    Inl e \<Rightarrow> Inl e
                  | Inr n \<Rightarrow> Inr (map (\<lambda>r. map (\<lambda>f. f r) fs) (sql_limit n (order_by k dir rows)))))))"

text \<open>
  \<open>SELECT cols FROM table alias WHERE ref = ?\<close>, the statement of \<open>load_page\<close>; the
  rows come in the order of the table.
\<close>

definition select_where ::
  "(string \<times> ('r \<Rightarrow> sql_value)) list \<Rightarrow> string \<Rightarrow> (string \<times> string) list \<Rightarrow>
   (string \<times> string) \<Rightarrow> sql_value \<Rightarrow> 'r list \<Rightarrow> py_error + py_tuple list" where
  "select_where cols alias refs wref v rows =
     (case resolve_all cols alias refs of
        Inl e \<Rightarrow> Inl e
      | Inr fs \<Rightarrow>
         (case resolve cols alias wref of
            Inl e \<Rightarrow> Inl e
          | Inr w \<Rightarrow> Inr (map (\<lambda>r. map (\<lambda>f. f r) fs) (filter (\<lambda>r. w r = v) rows))))"

text \<open>The cursor: \<open>fetchall\<close> always gives a list, \<open>fetchone\<close> the first row or None.\<close>

definition fetchall :: "py_tuple list \<Rightarrow> py_tuple list option" where
  "fetchall rows = Some rows"

definition fetchone :: "py_tuple list \<Rightarrow> py_tuple option" where
  "fetchone rows = (case rows of [] \<Rightarrow> None | r # _ \<Rightarrow> Some r)"

text \<open>
  An INSERT that names no id: the INTEGER PRIMARY KEY column takes one more than the
  largest id of the table, and 1 in an empty table. (Once the largest id is
  \<open>2^63 - 1\<close> SQLite tries unused ids at random; the ids of this program start at 1
  and grow by one, and the model does not follow them that far.)
\<close>

definition next_rowid :: "int list \<Rightarrow> int" where
  "next_rowid ids = (case ids of [] \<Rightarrow> 1 | i # is \<Rightarrow> fold max is i + 1)"

text \<open>\<open>INSERT INTO Searches (text, datetime) VALUES (?, DATETIME('now', 'localtime'))\<close>\<close>

definition insert_into_Searches :: "string \<Rightarrow> int \<Rightarrow> search_row list \<Rightarrow> search_row list" where
  "insert_into_Searches search now rows =
     rows @ [\<lparr>S_id = next_rowid (map S_id rows), S_text = search,
              S_datetime = datetime_now_localtime now\<rparr>]"

text \<open>
  \<open>INSERT INTO Pages (name, content, datetime) VALUES (?, ?, DATETIME('now', 'localtime'))\<close>:
  the UNIQUE constraint on name refuses a name that a row already has.
\<close>

definition insert_into_Pages ::
  "string \<Rightarrow> string \<Rightarrow> int \<Rightarrow> page_row list \<Rightarrow> py_error + page_row list" where
  "insert_into_Pages name content now rows =
     (if name \<in> set (map P_name rows) then Inl IntegrityError
      else Inr (rows @ [\<lparr>P_id = next_rowid (map P_id rows), P_name = name,
                         P_content = content, P_datetime = datetime_now_localtime now\<rparr>]))"

text \<open>\<open>UPDATE Pages SET content = ?, datetime = DATETIME('now', 'localtime') WHERE name = ?\<close>\<close>

definition update_Pages :: "string \<Rightarrow> int \<Rightarrow> string \<Rightarrow> page_row list \<Rightarrow> page_row list" where
  "update_Pages content now name rows =
     map (\<lambda>r. if P_name r = name
              then r\<lparr>P_content := content, P_datetime := datetime_now_localtime now\<rparr>
              else r) rows"

text \<open>\<open>DELETE FROM Searches\<close>\<close>

definition delete_from_Searches :: "database \<Rightarrow> database" where
  "delete_from_Searches db = db\<lparr>Searches := []\<rparr>"

subsection \<open>The methods of Database\<close>

definition save_search :: "config \<Rightarrow> int \<Rightarrow> string \<Rightarrow> database \<Rightarrow> (py_error + unit) \<times> database" where
  "save_search cfg now search db =
     (if DB_SAVE_SEARCHES cfg = False then (Inr (), db)
      else (Inr (), db\<lparr>Searches := insert_into_Searches search now (Searches db)\<rparr>))"

definition get_saved_pages ::
  "int option \<Rightarrow> database \<Rightarrow> (py_error + py_tuple list option) \<times> database" where
  "get_saved_pages limit db =
     (case (case limit of
              None \<Rightarrow>
                select_ordered Pages_columns ''P''
                  [(''P'', ''id''), (''P'', ''name''), (''P'', ''datetime'')]
                  (''P'', ''id'') ASC None (Pages db)
            | Some l \<Rightarrow>
                if l \<le> 0 then Inl ValueError
                else select_ordered Pages_columns ''P''
                       [(''P'', ''id''), (''S'', ''name'')]
                       (''P'', ''id'') DESC (Some l) (Pages db)) of
        Inl e \<Rightarrow> (Inl e, db)
      | Inr rows \<Rightarrow>
         (case fetchall rows of
            None \<Rightarrow> (Inr None, db)
          | Some pages \<Rightarrow> (Inr (Some pages), db)))"

definition get_saved_searches ::
  "int option \<Rightarrow> database \<Rightarrow> (py_error + py_tuple list option) \<times> database" where
  "get_saved_searches limit db =
     (case (case limit of
              None \<Rightarrow>
                select_ordered Searches_columns ''S''
                  [(''S'', ''id''), (''S'', ''text''), (''S'', ''datetime'')]
                  (''S'', ''id'') ASC None (Searches db)
            | Some l \<Rightarrow>
                if l \<le> 0 then Inl ValueError
                else select_ordered Searches_columns ''S''
                       [(''S'', ''id''), (''S'', ''text''), (''S'', ''datetime'')]
                       (''S'', ''id'') DESC (Some l) (Searches db)) of
        Inl e \<Rightarrow> (Inl e, db)
      | Inr rows \<Rightarrow>
         (case fetchall rows of
            None \<Rightarrow> (Inr None, db)
          | Some searches \<Rightarrow> (Inr (Some searches), db)))"

definition clear_searches :: "database \<Rightarrow> (py_error + unit) \<times> database" where
  "clear_searches db = (Inr (), delete_from_Searches db)"

definition clear_saved_pages :: "database \<Rightarrow> (py_error + unit) \<times> database" where
  "clear_saved_pages db = (Inr (), delete_from_Searches db)"

text \<open>
  \<open>save_page\<close>: the clock is the one read by the statement that succeeds, the INSERT or
  else the UPDATE in the handler of \<open>sqlite3.IntegrityError\<close>.
\<close>

definition save_page ::
  "config \<Rightarrow> int \<Rightarrow> wiki_parser \<Rightarrow> database \<Rightarrow> (py_error + unit) \<times> database" where
  "save_page cfg now page db =
     (if DB_SAVE_PAGES cfg = False then (Inr (), db)
      else
        (let page_name = page_title page;
             page_content = page_text page
         in case insert_into_Pages page_name page_content now (Pages db) of
              Inr rows \<Rightarrow> (Inr (), db\<lparr>Pages := rows\<rparr>)
            | Inl IntegrityError \<Rightarrow>
                (Inr (), db\<lparr>Pages := update_Pages page_content now page_name (Pages db)\<rparr>)
            | Inl e \<Rightarrow> (Inl e, db)))"

text \<open>
  \<open>page_needs_update\<close>: the function \<open>expiration_time_to_seconds\<close> of
  tools/cfg_parsing_utils is not part of the sources and is a parameter here
  (\<open>to_seconds\<close>); \<open>now\<close> is \<open>datetime.now()\<close>.
\<close>

definition page_needs_update :: "(string \<Rightarrow> int) \<Rightarrow> config \<Rightarrow> int \<Rightarrow> int \<Rightarrow> bool" where
  "page_needs_update to_seconds cfg now date =
     (let expiration_time = to_seconds (DB_PAGE_EXPIRATION_TIME cfg);
          cur_page_archival_time = timedelta_seconds (now - date)
      in if cur_page_archival_time > expiration_time then True else False)"

definition load_page ::
  "(string \<Rightarrow> int) \<Rightarrow> config \<Rightarrow> int \<Rightarrow> string \<Rightarrow> database \<Rightarrow>
   (py_error + wiki_parser option) \<times> database" where
  "load_page to_seconds cfg now page_name db =
     (if DB_USE_SAVED_PAGES cfg = False then (Inr None, db)
      else
        (case select_where Pages_columns ''P''
                [(''P'', ''name''), (''P'', ''content''), (''P'', ''datetime'')]
                (''p'', ''name'') (Text page_name) (Pages db) of
           Inl e \<Rightarrow> (Inl e, db)
         | Inr rows \<Rightarrow>
            (case fetchone rows of
               None \<Rightarrow> (Inr None, db)
             | Some page \<Rightarrow>
                (case page of
                   [Text name, Text content, LocalTime d] \<Rightarrow>
                     (if page_needs_update to_seconds cfg now (fromisoformat d)
                      then (Inr None, db)
                      else (Inr (Some (WikiParser content name)), db))
                 | _ \<Rightarrow> (Inl TypeError, db)))))"

subsection \<open>Invariant, operations and example stores\<close>

text \<open>The tuples of a saved page and of a saved search, as the unlimited queries select them.\<close>

definition page_tuple :: "page_row \<Rightarrow> py_tuple" where
  "page_tuple r = [Integer (P_id r), Text (P_name r), LocalTime (P_datetime r)]"

definition search_tuple :: "search_row \<Rightarrow> py_tuple" where
  "search_tuple r = [Integer (S_id r), Text (S_text r), LocalTime (S_datetime r)]"

text \<open>The invariant of the Pages table: no two rows have the same name.\<close>

definition names_unique :: "database \<Rightarrow> bool" where
  "names_unique db = distinct (map P_name (Pages db))"

text \<open>The public methods that take the store, and the store each of them leaves.\<close>

datatype operation =
    Save_search string
  | Get_saved_pages "int option"
  | Get_saved_searches "int option"
  | Clear_searches
  | Clear_saved_pages
  | Save_page wiki_parser
  | Load_page string

fun store_after :: "(string \<Rightarrow> int) \<Rightarrow> config \<Rightarrow> int \<Rightarrow> operation \<Rightarrow> database \<Rightarrow> database" where
  "store_after ts cfg now (Save_search s) db = snd (save_search cfg now s db)"
| "store_after ts cfg now (Get_saved_pages l) db = snd (get_saved_pages l db)"
| "store_after ts cfg now (Get_saved_searches l) db = snd (get_saved_searches l db)"
| "store_after ts cfg now Clear_searches db = snd (clear_searches db)"
| "store_after ts cfg now Clear_saved_pages db = snd (clear_saved_pages db)"
| "store_after ts cfg now (Save_page p) db = snd (save_page cfg now p db)"
| "store_after ts cfg now (Load_page n) db = snd (load_page ts cfg now n db)"

text \<open>
  A configuration with every toggle on and the spec's example of an expiration time, a
  stand-in for \<open>expiration_time_to_seconds\<close> that reads it as 7200 seconds, and two
  stores built by the methods from a new one.
\<close>

definition example_config :: config where
  "example_config =
     \<lparr>DB_SAVE_SEARCHES = True, DB_SAVE_PAGES = True, DB_USE_SAVED_PAGES = True,
      DB_PAGE_EXPIRATION_TIME = ''2h''\<rparr>"

definition example_to_seconds :: "string \<Rightarrow> int" where
  "example_to_seconds s = (if s = ''2h'' then 7200 else 0)"

definition store_ABC :: database where
  "store_ABC =
     snd (save_page example_config 3000000 (WikiParser ''c'' ''C'')
       (snd (save_page example_config 2000000 (WikiParser ''b'' ''B'')
         (snd (save_page example_config 1000000 (WikiParser ''a'' ''A'') create_tables)))))"

definition store_page_and_search :: database where
  "store_page_and_search =
     snd (save_search example_config 2000000 ''cat''
       (snd (save_page example_config 1000000 (WikiParser ''a'' ''A'') create_tables)))"

section \<open>Properties\<close>

subsection \<open>Resolving the statements of the source\<close>

lemma ident_eq_refl: "ident_eq a a"
  by (simp add: ident_eq_def)

lemma ident_eq_alias: "ident_eq ''p'' ''P''" "\<not> ident_eq ''S'' ''P''"
  by code_simp+

lemma ident_eq_columns:
  "\<not> ident_eq ''id'' ''name''" "\<not> ident_eq ''id'' ''content''" "\<not> ident_eq ''id'' ''datetime''"
  "\<not> ident_eq ''name'' ''content''" "\<not> ident_eq ''name'' ''datetime''"
  "\<not> ident_eq ''content'' ''datetime''"
  "\<not> ident_eq ''id'' ''text''" "\<not> ident_eq ''text'' ''datetime''"
  by code_simp+

lemmas ident_simps = ident_eq_refl ident_eq_alias ident_eq_columns

lemma insort_key_order_cong:
  assumes "\<And>x y. (f x \<le> f y) = (g x \<le> g y)"
  shows "insort_key f x xs = insort_key g x xs"
  by (induction xs) (simp_all add: assms)

lemma sort_key_order_cong:
  assumes "\<And>x y. (f x \<le> f y) = (g x \<le> g y)"
  shows "sort_key f xs = sort_key g xs"
proof (induction xs)
  case Nil
  show ?case by simp
next
  case (Cons x xs)
  then show ?case using insort_key_order_cong [of f g, OF assms] by simp
qed

lemma sort_key_Integer:
  "sort_key (\<lambda>r. sql_key (Integer (f r))) rows = sort_key f rows"
  "sort_key (\<lambda>r. (Suc 0, f r, [] :: string)) rows = sort_key f rows"
  by (rule sort_key_order_cong, auto)+

lemma select_pages_all:
  "select_ordered Pages_columns ''P'' [(''P'', ''id''), (''P'', ''name''), (''P'', ''datetime'')]
     (''P'', ''id'') ASC None rows =
   Inr (map (\<lambda>r. [Integer (P_id r), Text (P_name r), LocalTime (P_datetime r)]) (sort_key P_id rows))"
  by (simp add: select_ordered_def resolve_def Pages_columns_def order_by_def ident_simps
      sort_key_Integer)

lemma select_pages_limit:
  "select_ordered Pages_columns ''P'' [(''P'', ''id''), (''S'', ''name'')]
     (''P'', ''id'') DESC (Some l) rows = Inl OperationalError"
  by (simp add: select_ordered_def resolve_def Pages_columns_def ident_simps)

lemma select_searches_all:
  "select_ordered Searches_columns ''S'' [(''S'', ''id''), (''S'', ''text''), (''S'', ''datetime'')]
     (''S'', ''id'') ASC None rows =
   Inr (map (\<lambda>r. [Integer (S_id r), Text (S_text r), LocalTime (S_datetime r)]) (sort_key S_id rows))"
  by (simp add: select_ordered_def resolve_def Searches_columns_def order_by_def ident_simps
      sort_key_Integer)

lemma select_searches_limit:
  "select_ordered Searches_columns ''S'' [(''S'', ''id''), (''S'', ''text''), (''S'', ''datetime'')]
     (''S'', ''id'') DESC (Some l) rows =
   (if - (2 ^ 63) \<le> l \<and> l < 2 ^ 63
    then Inr (map (\<lambda>r. [Integer (S_id r), Text (S_text r), LocalTime (S_datetime r)])
               (sql_limit l (rev (sort_key S_id rows))))
    else Inl OverflowError)"
  by (simp add: select_ordered_def resolve_def Searches_columns_def order_by_def ident_simps
      sort_key_Integer bind_int_def)

lemma select_page_by_name:
  "select_where Pages_columns ''P'' [(''P'', ''name''), (''P'', ''content''), (''P'', ''datetime'')]
     (''p'', ''name'') (Text n) rows =
   Inr (map (\<lambda>r. [Text (P_name r), Text (P_content r), LocalTime (P_datetime r)])
         (filter (\<lambda>r. P_name r = n) rows))"
  by (simp add: select_where_def resolve_def Pages_columns_def ident_simps)

subsection \<open>What each method computes\<close>

lemma get_saved_pages_None:
  "get_saved_pages None db = (Inr (Some (map page_tuple (sort_key P_id (Pages db)))), db)"
  by (simp add: get_saved_pages_def select_pages_all fetchall_def page_tuple_def)

lemma get_saved_pages_Some:
  "get_saved_pages (Some l) db = (Inl (if l \<le> 0 then ValueError else OperationalError), db)"
  by (simp add: get_saved_pages_def select_pages_limit)

lemma get_saved_searches_None:
  "get_saved_searches None db = (Inr (Some (map search_tuple (sort_key S_id (Searches db)))), db)"
  by (simp add: get_saved_searches_def select_searches_all fetchall_def search_tuple_def)

lemma get_saved_searches_Some:
  "get_saved_searches (Some l) db =
     (if l \<le> 0 then Inl ValueError
      else if l < 2 ^ 63
        then Inr (Some (map search_tuple (take (nat l) (rev (sort_key S_id (Searches db))))))
        else Inl OverflowError, db)"
  by (simp add: get_saved_searches_def select_searches_limit fetchall_def search_tuple_def
      sql_limit_def)

lemma load_page_eq:
  "load_page ts cfg now n db =
     (if \<not> DB_USE_SAVED_PAGES cfg then Inr None
      else (case filter (\<lambda>r. P_name r = n) (Pages db) of
              [] \<Rightarrow> Inr None
            | r # _ \<Rightarrow>
                if page_needs_update ts cfg now (fromisoformat (P_datetime r)) then Inr None
                else Inr (Some (WikiParser (P_content r) (P_name r)))), db)"
  by (cases "filter (\<lambda>r. P_name r = n) (Pages db)")
     (simp_all add: load_page_def select_page_by_name fetchone_def)

lemma save_page_eq:
  "save_page cfg now P db =
     (Inr (),
      if \<not> DB_SAVE_PAGES cfg then db
      else if page_title P \<in> set (map P_name (Pages db))
        then db\<lparr>Pages := update_Pages (page_text P) now (page_title P) (Pages db)\<rparr>
        else db\<lparr>Pages := Pages db @
               [\<lparr>P_id = next_rowid (map P_id (Pages db)), P_name = page_title P,
                 P_content = page_text P, P_datetime = datetime_now_localtime now\<rparr>]\<rparr>)"
  by (simp add: save_page_def insert_into_Pages_def Let_def)

lemma update_Pages_Nil: "update_Pages c now n [] = []"
  by (simp add: update_Pages_def)

lemma update_Pages_Cons:
  "update_Pages c now n (x # xs) =
     (if P_name x = n then x\<lparr>P_content := c, P_datetime := datetime_now_localtime now\<rparr> else x)
     # update_Pages c now n xs"
  by (simp add: update_Pages_def)

lemma update_Pages_names: "map P_name (update_Pages c now n rows) = map P_name rows"
  by (induction rows) (simp_all add: update_Pages_Nil update_Pages_Cons)

lemma update_Pages_ids: "map P_id (update_Pages c now n rows) = map P_id rows"
  by (induction rows) (simp_all add: update_Pages_Nil update_Pages_Cons)

lemma update_Pages_hit:
  "\<forall>r \<in> set (update_Pages c now n rows).
     P_name r = n \<longrightarrow> P_content r = c \<and> P_datetime r = datetime_now_localtime now"
  by (induction rows) (simp_all add: update_Pages_Nil update_Pages_Cons)

lemma one_row_per_name:
  "distinct (map f xs) \<Longrightarrow> n \<in> set (map f xs) \<Longrightarrow> length (filter (\<lambda>r. f r = n) xs) = 1"
proof (induction xs)
  case Nil
  then show ?case by simp
next
  case (Cons x xs)
  show ?case
  proof (cases "f x = n")
    case True
    from Cons.prems(1) have "f x \<notin> f ` set xs" by simp
    with True have "\<forall>r \<in> set xs. f r \<noteq> n" by blast
    then have "filter (\<lambda>r. f r = n) xs = []"
      by (simp add: filter_empty_conv)
    with True show ?thesis by simp
  next
    case False
    with Cons show ?thesis by auto
  qed
qed

lemma save_page_names_unique:
  "names_unique db \<Longrightarrow> names_unique (snd (save_page cfg now P db))"
  by (simp add: save_page_eq names_unique_def update_Pages_names)

lemma get_saved_pages_store: "snd (get_saved_pages l db) = db"
  by (cases l) (simp_all add: get_saved_pages_None get_saved_pages_Some)

lemma get_saved_searches_store: "snd (get_saved_searches l db) = db"
  by (cases l) (simp_all add: get_saved_searches_None get_saved_searches_Some)

lemma load_page_store: "snd (load_page ts cfg now n db) = db"
  by (simp add: load_page_eq)

lemma store_after_Pages:
  "Pages (store_after ts cfg now op db) =
     (case op of Save_page p \<Rightarrow> Pages (snd (save_page cfg now p db)) | _ \<Rightarrow> Pages db)"
  by (cases op)
     (simp_all add: save_search_def get_saved_pages_store get_saved_searches_store
        clear_searches_def clear_saved_pages_def delete_from_Searches_def load_page_store)

lemma store_after_names_unique:
  "names_unique db \<Longrightarrow> names_unique (store_after ts cfg now op db)"
  using save_page_names_unique [of db cfg now]
  by (cases op) (simp_all add: names_unique_def store_after_Pages del: store_after.simps)

lemma store_ABC_rows:
  "store_ABC =
     \<lparr>Pages =
        [\<lparr>P_id = 1, P_name = ''A'', P_content = ''a'', P_datetime = 1\<rparr>,
         \<lparr>P_id = 2, P_name = ''B'', P_content = ''b'', P_datetime = 2\<rparr>,
         \<lparr>P_id = 3, P_name = ''C'', P_content = ''c'', P_datetime = 3\<rparr>],
      Searches = []\<rparr>"
  by code_simp

lemma store_page_and_search_rows:
  "store_page_and_search =
     \<lparr>Pages = [\<lparr>P_id = 1, P_name = ''A'', P_content = ''a'', P_datetime = 1\<rparr>],
      Searches = [\<lparr>S_id = 1, S_text = ''cat'', S_datetime = 2\<rparr>]\<rparr>"
  by code_simp

subsection \<open>Pages, names and the clock\<close>

lemma only_row_of_name:
  "distinct (map f xs) \<Longrightarrow> r \<in> set xs \<Longrightarrow> filter (\<lambda>x. f x = f r) xs = [r]"
proof (induction xs)
  case Nil
  then show ?case by simp
next
  case (Cons x xs)
  show ?case
  proof (cases "x = r")
    case True
    from Cons.prems(1) have "f x \<notin> f ` set xs" by simp
    with True have "\<forall>y \<in> set xs. f y \<noteq> f r" by (metis image_eqI)
    then have "filter (\<lambda>y. f y = f r) xs = []" by (simp add: filter_empty_conv)
    with True show ?thesis by simp
  next
    case False
    with Cons.prems have r: "r \<in> set xs" by simp
    from Cons.prems(1) have "f x \<notin> f ` set xs" by simp
    with r have "f x \<noteq> f r" by (metis image_eqI)
    with Cons.IH Cons.prems(1) r show ?thesis by simp
  qed
qed

lemma timedelta_seconds_le:
  assumes "0 \<le> d"
  shows "timedelta_seconds d \<le> d div 1000000"
proof -
  have "d mod 86400000000 \<le> d" using assms by (rule zmod_le_nonneg_dividend)
  then show ?thesis unfolding timedelta_seconds_def by (rule zdiv_mono1) simp
qed

lemma timedelta_seconds_within_a_day:
  "0 \<le> d \<Longrightarrow> d < 86400000000 \<Longrightarrow> timedelta_seconds d = d div 1000000"
  by (simp add: timedelta_seconds_def)

lemma page_needs_update_within_a_day:
  "0 \<le> now - date \<Longrightarrow> now - date < 86400000000 \<Longrightarrow>
   page_needs_update ts cfg now date = (ts (DB_PAGE_EXPIRATION_TIME cfg) < (now - date) div 1000000)"
  by (simp add: page_needs_update_def timedelta_seconds_within_a_day)

lemma page_fresh_within_window:
  "0 \<le> now - date \<Longrightarrow> (now - date) div 1000000 \<le> ts (DB_PAGE_EXPIRATION_TIME cfg) \<Longrightarrow>
   \<not> page_needs_update ts cfg now date"
  using timedelta_seconds_le [of "now - date"] by (simp add: page_needs_update_def)

lemma saved_at_le_now: "fromisoformat (datetime_now_localtime t) \<le> t"
  by (simp add: fromisoformat_def datetime_now_localtime_def)

lemma load_page_absent:
  "n \<notin> set (map P_name (Pages db)) \<Longrightarrow> load_page ts cfg now n db = (Inr None, db)"
proof -
  assume "n \<notin> set (map P_name (Pages db))"
  then have "\<forall>r \<in> set (Pages db). P_name r \<noteq> n" by (metis image_eqI list.set_map)
  then have "filter (\<lambda>r. P_name r = n) (Pages db) = []" by (simp add: filter_empty_conv)
  then show ?thesis by (simp add: load_page_eq)
qed

lemma load_page_present:
  assumes "names_unique db" and "row \<in> set (Pages db)" and "DB_USE_SAVED_PAGES cfg"
  shows "load_page ts cfg now (P_name row) db =
     (if page_needs_update ts cfg now (fromisoformat (P_datetime row)) then Inr None
      else Inr (Some (WikiParser (P_content row) (P_name row))), db)"
proof -
  from assms(1,2) have "filter (\<lambda>r. P_name r = P_name row) (Pages db) = [row]"
    unfolding names_unique_def by (rule only_row_of_name)
  with assms(3) show ?thesis by (simp add: load_page_eq)
qed

lemma save_page_rows_of_name:
  assumes "DB_SAVE_PAGES cfg"
  shows "\<forall>r \<in> set (Pages (snd (save_page cfg now P db))).
           P_name r = page_title P \<longrightarrow>
           P_content r = page_text P \<and> P_datetime r = datetime_now_localtime now"
proof (cases "page_title P \<in> set (map P_name (Pages db))")
  case True
  with assms show ?thesis
    using update_Pages_hit [of "page_text P" now "page_title P" "Pages db"]
    by (simp add: save_page_eq)
next
  case False
  then have "\<forall>r \<in> set (Pages db). P_name r \<noteq> page_title P"
    by (metis image_eqI list.set_map)
  with assms False show ?thesis by (simp add: save_page_eq)
qed

lemma update_Pages_name_set: "P_name ` set (update_Pages c now n rows) = P_name ` set rows"
  using update_Pages_names [of c now n rows] by (metis list.set_map)

lemma save_page_has_name:
  "DB_SAVE_PAGES cfg \<Longrightarrow> page_title P \<in> set (map P_name (Pages (snd (save_page cfg now P db))))"
  by (simp add: save_page_eq update_Pages_name_set)

lemma save_page_first_match:
  assumes "DB_SAVE_PAGES cfg"
  shows "\<exists>r rs. filter (\<lambda>r. P_name r = page_title P) (Pages (snd (save_page cfg now P db))) = r # rs
           \<and> P_name r = page_title P \<and> P_content r = page_text P
           \<and> P_datetime r = datetime_now_localtime now"
proof -
  let ?rows = "Pages (snd (save_page cfg now P db))"
  let ?hits = "filter (\<lambda>r. P_name r = page_title P) ?rows"
  from save_page_has_name [OF assms, of P now db]
  obtain r0 where "r0 \<in> set ?rows" and "P_name r0 = page_title P"
    by (metis (no_types, lifting) imageE list.set_map)
  then have "r0 \<in> set ?hits" by simp
  then obtain r rs where hits: "?hits = r # rs" by (cases ?hits) auto
  then have "r \<in> set ?hits" by simp
  then have "r \<in> set ?rows" and "P_name r = page_title P" by simp_all
  with save_page_rows_of_name [OF assms, of now P db] hits show ?thesis by blast
qed

lemma save_page_one_row:
  assumes "names_unique db" and "DB_SAVE_PAGES cfg"
  shows "length (filter (\<lambda>r. P_name r = page_title P) (Pages (snd (save_page cfg now P db)))) = 1"
proof -
  from assms(1) have "distinct (map P_name (Pages (snd (save_page cfg now P db))))"
    using save_page_names_unique [of db cfg now P] by (simp add: names_unique_def)
  then show ?thesis using save_page_has_name [OF assms(2), of P now db]
    by (rule one_row_per_name)
qed

lemma save_page_update_keeps_ids:
  assumes "DB_SAVE_PAGES cfg" and "page_title P \<in> set (map P_name (Pages db))"
  shows "map P_id (Pages (snd (save_page cfg now P db))) = map P_id (Pages db)
       \<and> map P_name (Pages (snd (save_page cfg now P db))) = map P_name (Pages db)"
  using assms by (simp add: save_page_eq update_Pages_ids update_Pages_names)

lemma clear_saved_pages_is_clear_searches: "clear_saved_pages db = clear_searches db"
  by (simp add: clear_saved_pages_def clear_searches_def)

lemma clear_saved_pages_keeps_Pages:
  "Pages (snd (clear_saved_pages db)) = Pages db \<and> Searches (snd (clear_saved_pages db)) = []"
  by (simp add: clear_saved_pages_def delete_from_Searches_def)

lemma clear_searches_empties_Searches:
  "Pages (snd (clear_searches db)) = Pages db \<and> Searches (snd (clear_searches db)) = []"
  by (simp add: clear_searches_def delete_from_Searches_def)

lemma get_saved_pages_tuples:
  "fst (get_saved_pages limit db) = Inr (Some tuples) \<Longrightarrow>
   limit = None \<and> tuples = map page_tuple (sort_key P_id (Pages db))"
  by (cases limit) (simp_all add: get_saved_pages_None get_saved_pages_Some)

lemma insort_key_of_map:
  "insort_key f (g x) (map g xs) = map g (insort_key (\<lambda>r. f (g r)) x xs)"
  by (induction xs) simp_all

lemma sort_key_of_map: "sort_key f (map g xs) = map g (sort_key (\<lambda>r. f (g r)) xs)"
  by (induction xs) (simp_all add: insort_key_of_map)

lemma get_saved_pages_ignores_content:
  "fst (get_saved_pages limit (db\<lparr>Pages := map (\<lambda>r. r\<lparr>P_content := c r\<rparr>) (Pages db)\<rparr>))
     = fst (get_saved_pages limit db)"
  by (cases limit)
     (simp_all add: get_saved_pages_None get_saved_pages_Some sort_key_of_map page_tuple_def)

lemma get_saved_searches_ignores_Pages:
  "fst (get_saved_searches limit (db\<lparr>Pages := ps\<rparr>)) = fst (get_saved_searches limit db)"
  by (cases limit) (simp_all add: get_saved_searches_None get_saved_searches_Some)

subsection \<open>Claims\<close>

text \<open>
  C1. In a store whose pages have distinct names, \<open>save_page\<close> with DB_SAVE_PAGES on
  returns normally and leaves exactly one page of the title; that page has the new content
  and the time of the save. When a page of the title was there already, the table keeps its
  ids and names, row by row: the page is updated in place under the id it had. The new
  store of \<open>__create_tables\<close> has distinct names, and every method, under every
  configuration, keeps them distinct.
\<close>

theorem save_page_upserts:
  assumes "names_unique db" and "DB_SAVE_PAGES cfg"
  shows "fst (save_page cfg now P db) = Inr ()
       \<and> length (filter (\<lambda>r. P_name r = page_title P)
            (Pages (snd (save_page cfg now P db)))) = 1
       \<and> (\<forall>r \<in> set (Pages (snd (save_page cfg now P db))).
            P_name r = page_title P \<longrightarrow>
            P_content r = page_text P \<and> P_datetime r = datetime_now_localtime now)
       \<and> (page_title P \<in> set (map P_name (Pages db)) \<longrightarrow>
            map P_id (Pages (snd (save_page cfg now P db))) = map P_id (Pages db)
            \<and> map P_name (Pages (snd (save_page cfg now P db))) = map P_name (Pages db))
       \<and> names_unique create_tables
       \<and> names_unique (store_after ts cfg' now' op db)"
proof -
  have 1: "fst (save_page cfg now P db) = Inr ()" by (simp add: save_page_eq)
  have 5: "names_unique create_tables" by (simp add: names_unique_def create_tables_def)
  from 1 save_page_one_row [OF assms, of P now] save_page_rows_of_name [OF assms(2), of now P db]
    save_page_update_keeps_ids [OF assms(2), of P db now] 5
    store_after_names_unique [OF assms(1), of ts cfg' now' op]
  show ?thesis by blast
qed

theorem save_page_upserts_witness:
  "names_unique store_ABC \<and> DB_SAVE_PAGES example_config
   \<and> page_title (WikiParser ''b2'' ''B'') \<in> set (map P_name (Pages store_ABC))
   \<and> fst (save_page example_config 9000000 (WikiParser ''b2'' ''B'') store_ABC) = Inr ()
   \<and> length (filter (\<lambda>r. P_name r = page_title (WikiParser ''b2'' ''B''))
        (Pages (snd (save_page example_config 9000000 (WikiParser ''b2'' ''B'') store_ABC)))) = 1
   \<and> \<lparr>P_id = 2, P_name = ''B'', P_content = ''b2'', P_datetime = 9\<rparr>
        \<in> set (Pages (snd (save_page example_config 9000000 (WikiParser ''b2'' ''B'') store_ABC)))
   \<and> map P_id (Pages (snd (save_page example_config 9000000 (WikiParser ''b2'' ''B'') store_ABC)))
        = map P_id (Pages store_ABC)
   \<and> names_unique (store_after example_to_seconds example_config 9000000
        (Save_page (WikiParser ''b2'' ''B'')) store_ABC)"
proof -
  have u: "names_unique store_ABC" by code_simp
  have c: "DB_SAVE_PAGES example_config" by code_simp
  have b: "page_title (WikiParser ''b2'' ''B'') \<in> set (map P_name (Pages store_ABC))"
    by code_simp
  have r: "\<lparr>P_id = 2, P_name = ''B'', P_content = ''b2'', P_datetime = 9\<rparr>
        \<in> set (Pages (snd (save_page example_config 9000000 (WikiParser ''b2'' ''B'') store_ABC)))"
    by code_simp
  from save_page_upserts [OF u c, of 9000000 "WikiParser ''b2'' ''B''" example_to_seconds
      example_config 9000000 "Save_page (WikiParser ''b2'' ''B'')"] u c b r
  show ?thesis by blast
qed

text \<open>
  C2. Each clear operation should delete exactly the records of its kind. In the store
  holding the page A and the search \<open>cat\<close>, \<open>clear_saved_pages\<close> leaves the page where
  it is and deletes the search: it runs the statement of \<open>clear_searches\<close>.
\<close>

theorem clear_saved_pages_deletes_searches:
  "clear_saved_pages store_page_and_search =
     (Inr (),
      \<lparr>Pages = [\<lparr>P_id = 1, P_name = ''A'', P_content = ''a'', P_datetime = 1\<rparr>],
       Searches = []\<rparr>)"
  by code_simp

text \<open>
  C3. A page should need an update exactly when its age in seconds exceeds the threshold.
  With the threshold at two hours, a page saved one day and one second ago is reported
  fresh, although 86401 seconds exceed 7200: the attribute \<open>seconds\<close> of the difference
  leaves the days out and is 1.
\<close>

theorem page_needs_update_wraps_after_a_day:
  "page_needs_update example_to_seconds example_config (fromisoformat 86401) (fromisoformat 0)
     = False
   \<and> 86401 > example_to_seconds (DB_PAGE_EXPIRATION_TIME example_config)"
  by code_simp

text \<open>
  C4. After saving the pages A, B and C in this order, \<open>get_saved_pages\<close> with limit 2
  should return C and B. The call raises \<open>sqlite3.OperationalError\<close> instead: its
  statement selects \<open>S.name\<close> from \<open>Pages P\<close>. Without a limit the three pages come
  in the order A, B, C.
\<close>

theorem get_saved_pages_limit_raises:
  "get_saved_pages (Some 2) store_ABC = (Inl OperationalError, store_ABC)
   \<and> get_saved_pages None store_ABC =
       (Inr (Some [[Integer 1, Text ''A'', LocalTime 1],
                   [Integer 2, Text ''B'', LocalTime 2],
                   [Integer 3, Text ''C'', LocalTime 3]]), store_ABC)"
  by code_simp

text \<open>
  C5. For a limit of zero or less, \<open>get_saved_pages\<close> and \<open>get_saved_searches\<close> raise
  ValueError, whatever the store holds, and leave the store as it is. Without a limit both
  return every record of their table, in ascending order of id.
\<close>

theorem nonpositive_limit_raises_ValueError:
  "(l \<le> 0 \<longrightarrow>
      get_saved_pages (Some l) db = (Inl ValueError, db)
    \<and> get_saved_searches (Some l) db = (Inl ValueError, db))
   \<and> get_saved_pages None db = (Inr (Some (map page_tuple (sort_key P_id (Pages db)))), db)
   \<and> get_saved_searches None db =
       (Inr (Some (map search_tuple (sort_key S_id (Searches db)))), db)"
  by (simp add: get_saved_pages_None get_saved_pages_Some get_saved_searches_None
      get_saved_searches_Some)

theorem nonpositive_limit_raises_ValueError_witness:
  "(- 1 :: int) \<le> 0
   \<and> get_saved_pages (Some (- 1)) store_ABC = (Inl ValueError, store_ABC)
   \<and> get_saved_searches (Some (- 1)) store_ABC = (Inl ValueError, store_ABC)
   \<and> get_saved_pages None store_ABC =
       (Inr (Some [[Integer 1, Text ''A'', LocalTime 1],
                   [Integer 2, Text ''B'', LocalTime 2],
                   [Integer 3, Text ''C'', LocalTime 3]]), store_ABC)"
proof -
  have rows: "map page_tuple (sort_key P_id (Pages store_ABC)) =
      [[Integer 1, Text ''A'', LocalTime 1],
       [Integer 2, Text ''B'', LocalTime 2],
       [Integer 3, Text ''C'', LocalTime 3]]"
    by code_simp
  from nonpositive_limit_raises_ValueError [of "- 1" store_ABC] show ?thesis
    by (simp add: rows)
qed

text \<open>
  C6. With DB_SAVE_PAGES off, \<open>save_page\<close> returns the store as it was; when the store
  held no page of that title (a new store holds none), \<open>load_page\<close> of the title answers
  None afterwards, with DB_USE_SAVED_PAGES on. With DB_USE_SAVED_PAGES off, \<open>load_page\<close>
  answers None for every name and every store, also right after the page was saved with
  DB_SAVE_PAGES on.
\<close>

theorem toggles_gate_save_and_load:
  "(DB_SAVE_PAGES cfg = False \<longrightarrow>
      save_page cfg t1 P db = (Inr (), db)
      \<and> (DB_USE_SAVED_PAGES cfg \<and> page_title P \<notin> set (map P_name (Pages db)) \<longrightarrow>
           load_page ts cfg t2 (page_title P) (snd (save_page cfg t1 P db)) = (Inr None, db))
      \<and> (DB_USE_SAVED_PAGES cfg \<longrightarrow>
           load_page ts cfg t2 (page_title P) (snd (save_page cfg t1 P create_tables))
             = (Inr None, create_tables)))
   \<and> (DB_USE_SAVED_PAGES cfg = False \<longrightarrow>
        load_page ts cfg t2 name db = (Inr None, db)
        \<and> fst (load_page ts cfg t2 (page_title P)
                 (snd (save_page (cfg\<lparr>DB_SAVE_PAGES := True\<rparr>) t1 P db))) = Inr None)"
proof -
  have new: "page_title P \<notin> set (map P_name (Pages create_tables))"
    by (simp add: create_tables_def)
  have off: "DB_USE_SAVED_PAGES cfg = False \<longrightarrow> load_page ts cfg t2 n d = (Inr None, d)" for n d
    by (simp add: load_page_eq)
  have gated: "DB_SAVE_PAGES cfg = False \<longrightarrow> save_page cfg t1 P d = (Inr (), d)" for d
    by (simp add: save_page_eq)
  from new off gated load_page_absent [of "page_title P" db ts cfg t2]
    load_page_absent [of "page_title P" create_tables ts cfg t2]
  show ?thesis by simp
qed

theorem toggles_gate_save_and_load_witness:
  "DB_SAVE_PAGES (example_config\<lparr>DB_SAVE_PAGES := False\<rparr>) = False
   \<and> DB_USE_SAVED_PAGES (example_config\<lparr>DB_SAVE_PAGES := False\<rparr>)
   \<and> page_title (WikiParser ''d'' ''D'') \<notin> set (map P_name (Pages store_ABC))
   \<and> save_page (example_config\<lparr>DB_SAVE_PAGES := False\<rparr>) 4000000 (WikiParser ''d'' ''D'')
        store_ABC = (Inr (), store_ABC)
   \<and> load_page example_to_seconds (example_config\<lparr>DB_SAVE_PAGES := False\<rparr>) 5000000
        (page_title (WikiParser ''d'' ''D''))
        (snd (save_page (example_config\<lparr>DB_SAVE_PAGES := False\<rparr>) 4000000
           (WikiParser ''d'' ''D'') store_ABC)) = (Inr None, store_ABC)
   \<and> load_page example_to_seconds (example_config\<lparr>DB_SAVE_PAGES := False\<rparr>) 5000000
        (page_title (WikiParser ''d'' ''D''))
        (snd (save_page (example_config\<lparr>DB_SAVE_PAGES := False\<rparr>) 4000000
           (WikiParser ''d'' ''D'') create_tables)) = (Inr None, create_tables)
   \<and> DB_USE_SAVED_PAGES (example_config\<lparr>DB_USE_SAVED_PAGES := False\<rparr>) = False
   \<and> load_page example_to_seconds (example_config\<lparr>DB_USE_SAVED_PAGES := False\<rparr>) 5000000 ''B''
        store_ABC = (Inr None, store_ABC)
   \<and> fst (load_page example_to_seconds (example_config\<lparr>DB_USE_SAVED_PAGES := False\<rparr>) 5000000
        (page_title (WikiParser ''d'' ''D''))
        (snd (save_page
           (example_config\<lparr>DB_USE_SAVED_PAGES := False, DB_SAVE_PAGES := True\<rparr>) 4000000
           (WikiParser ''d'' ''D'') store_ABC))) = Inr None"
proof -
  have a: "DB_SAVE_PAGES (example_config\<lparr>DB_SAVE_PAGES := False\<rparr>) = False"
    "DB_USE_SAVED_PAGES (example_config\<lparr>DB_SAVE_PAGES := False\<rparr>)"
    "DB_USE_SAVED_PAGES (example_config\<lparr>DB_USE_SAVED_PAGES := False\<rparr>) = False"
    by (simp_all add: example_config_def)
  have d: "page_title (WikiParser ''d'' ''D'') \<notin> set (map P_name (Pages store_ABC))"
    by code_simp
  from toggles_gate_save_and_load [of "example_config\<lparr>DB_SAVE_PAGES := False\<rparr>" 4000000
      "WikiParser ''d'' ''D''" store_ABC example_to_seconds 5000000 "''B''"]
    toggles_gate_save_and_load [of "example_config\<lparr>DB_USE_SAVED_PAGES := False\<rparr>" 4000000
      "WikiParser ''d'' ''D''" store_ABC example_to_seconds 5000000 "''B''"]
    a d
  show ?thesis by blast
qed

text \<open>
  C7. With both toggles on, a page saved at \<open>t_save\<close> and loaded at \<open>t_load\<close>, not
  earlier and while the age of its record in whole seconds is at most the threshold, comes
  back equal to the page that was saved.
\<close>

theorem load_after_save_round_trip:
  assumes "DB_SAVE_PAGES cfg" and "DB_USE_SAVED_PAGES cfg"
    and "t_save \<le> t_load"
    and "(t_load - fromisoformat (datetime_now_localtime t_save)) div 1000000
           \<le> ts (DB_PAGE_EXPIRATION_TIME cfg)"
  shows "load_page ts cfg t_load (page_title P) (snd (save_page cfg t_save P db))
           = (Inr (Some P), snd (save_page cfg t_save P db))"
proof -
  from save_page_first_match [OF assms(1), of P t_save db]
  obtain r rs where hits:
      "filter (\<lambda>r. P_name r = page_title P) (Pages (snd (save_page cfg t_save P db))) = r # rs"
    and r: "P_name r = page_title P" "P_content r = page_text P"
      "P_datetime r = datetime_now_localtime t_save"
    by blast
  from assms(3) saved_at_le_now [of t_save]
  have "0 \<le> t_load - fromisoformat (datetime_now_localtime t_save)" by simp
  then have fresh: "\<not> page_needs_update ts cfg t_load (fromisoformat (datetime_now_localtime t_save))"
    using assms(4) by (rule page_fresh_within_window)
  have P: "WikiParser (page_text P) (page_title P) = P" by (simp add: WikiParser_def)
  from assms(2) hits r fresh P show ?thesis by (simp add: load_page_eq)
qed

theorem load_after_save_round_trip_witness:
  "DB_SAVE_PAGES example_config \<and> DB_USE_SAVED_PAGES example_config
   \<and> (4000000 :: int) \<le> fromisoformat 7204
   \<and> (fromisoformat 7204 - fromisoformat (datetime_now_localtime 4000000)) div 1000000
        \<le> example_to_seconds (DB_PAGE_EXPIRATION_TIME example_config)
   \<and> load_page example_to_seconds example_config (fromisoformat 7204)
        (page_title (WikiParser ''d'' ''D''))
        (snd (save_page example_config 4000000 (WikiParser ''d'' ''D'') store_ABC))
      = (Inr (Some (WikiParser ''d'' ''D'')),
         snd (save_page example_config 4000000 (WikiParser ''d'' ''D'') store_ABC))"
proof -
  have a: "DB_SAVE_PAGES example_config" by code_simp
  have b: "DB_USE_SAVED_PAGES example_config" by code_simp
  have c: "(4000000 :: int) \<le> fromisoformat 7204" by code_simp
  have d: "(fromisoformat 7204 - fromisoformat (datetime_now_localtime 4000000)) div 1000000
        \<le> example_to_seconds (DB_PAGE_EXPIRATION_TIME example_config)" by code_simp
  from load_after_save_round_trip [where ts = example_to_seconds and P = "WikiParser ''d'' ''D''"
      and db = store_ABC, OF a b c d] a b c d
  show ?thesis by blast
qed

text \<open>
  C8. \<open>load_page\<close> returns the store it was given, for every name and configuration:
  when no page has the name, when the page is stale (the answer is None and the record
  stays) and when the page is returned. Only \<open>save_page\<close> and the two clear methods are
  left as candidates for changing the Pages table: every other method keeps it.
\<close>

theorem load_page_leaves_store:
  "snd (load_page ts cfg now name db) = db
   \<and> (name \<notin> set (map P_name (Pages db)) \<longrightarrow>
        load_page ts cfg now name db = (Inr None, db))
   \<and> (DB_USE_SAVED_PAGES cfg \<and> names_unique db \<and> row \<in> set (Pages db)
        \<and> page_needs_update ts cfg now (fromisoformat (P_datetime row)) \<longrightarrow>
        load_page ts cfg now (P_name row) db = (Inr None, db))
   \<and> (DB_USE_SAVED_PAGES cfg \<and> names_unique db \<and> row \<in> set (Pages db)
        \<and> \<not> page_needs_update ts cfg now (fromisoformat (P_datetime row)) \<longrightarrow>
        load_page ts cfg now (P_name row) db =
          (Inr (Some (WikiParser (P_content row) (P_name row))), db))
   \<and> (op \<noteq> Clear_searches \<and> op \<noteq> Clear_saved_pages \<and> (\<forall>p. op \<noteq> Save_page p) \<longrightarrow>
        Pages (store_after ts cfg now op db) = Pages db)"
proof -
  have 1: "snd (load_page ts cfg now name db) = db" by (rule load_page_store)
  have 2: "name \<notin> set (map P_name (Pages db)) \<longrightarrow>
        load_page ts cfg now name db = (Inr None, db)"
    using load_page_absent [of name db ts cfg now] by blast
  have 3: "DB_USE_SAVED_PAGES cfg \<and> names_unique db \<and> row \<in> set (Pages db)
        \<and> page_needs_update ts cfg now (fromisoformat (P_datetime row)) \<longrightarrow>
        load_page ts cfg now (P_name row) db = (Inr None, db)"
    using load_page_present [of db row cfg ts now] by simp
  have 4: "DB_USE_SAVED_PAGES cfg \<and> names_unique db \<and> row \<in> set (Pages db)
        \<and> \<not> page_needs_update ts cfg now (fromisoformat (P_datetime row)) \<longrightarrow>
        load_page ts cfg now (P_name row) db =
          (Inr (Some (WikiParser (P_content row) (P_name row))), db)"
    using load_page_present [of db row cfg ts now] by simp
  have 5: "op \<noteq> Clear_searches \<and> op \<noteq> Clear_saved_pages \<and> (\<forall>p. op \<noteq> Save_page p) \<longrightarrow>
        Pages (store_after ts cfg now op db) = Pages db"
    by (cases op) (simp_all add: store_after_Pages del: store_after.simps)
  from 1 2 3 4 5 show ?thesis by blast
qed

theorem load_page_leaves_store_witness:
  "names_unique store_ABC \<and> DB_USE_SAVED_PAGES example_config
   \<and> \<lparr>P_id = 2, P_name = ''B'', P_content = ''b'', P_datetime = 2\<rparr> \<in> set (Pages store_ABC)
   \<and> page_needs_update example_to_seconds example_config (fromisoformat 7203) (fromisoformat 2)
   \<and> load_page example_to_seconds example_config (fromisoformat 7203) ''B'' store_ABC
       = (Inr None, store_ABC)
   \<and> \<not> page_needs_update example_to_seconds example_config (fromisoformat 7202) (fromisoformat 2)
   \<and> load_page example_to_seconds example_config (fromisoformat 7202) ''B'' store_ABC
       = (Inr (Some (WikiParser ''b'' ''B'')), store_ABC)
   \<and> ''Z'' \<notin> set (map P_name (Pages store_ABC))
   \<and> load_page example_to_seconds example_config (fromisoformat 7203) ''Z'' store_ABC
       = (Inr None, store_ABC)
   \<and> Pages (store_after example_to_seconds example_config (fromisoformat 7203)
         (Load_page ''B'') store_ABC) = Pages store_ABC"
proof -
  let ?B = "\<lparr>P_id = 2, P_name = ''B'', P_content = ''b'', P_datetime = 2\<rparr>"
  have u: "names_unique store_ABC" by code_simp
  have c: "DB_USE_SAVED_PAGES example_config" by code_simp
  have b: "?B \<in> set (Pages store_ABC)" by code_simp
  have z: "''Z'' \<notin> set (map P_name (Pages store_ABC))" by code_simp
  have s: "page_needs_update example_to_seconds example_config (fromisoformat 7203)
      (fromisoformat 2)" by code_simp
  have f: "\<not> page_needs_update example_to_seconds example_config (fromisoformat 7202)
      (fromisoformat 2)" by code_simp
  have o: "Load_page ''B'' \<noteq> Clear_searches \<and> Load_page ''B'' \<noteq> Clear_saved_pages
      \<and> (\<forall>p. Load_page ''B'' \<noteq> Save_page p)" by simp
  from load_page_leaves_store [of example_to_seconds example_config "fromisoformat 7203"
      "''Z''" store_ABC ?B "Load_page ''B''"]
    load_page_leaves_store [of example_to_seconds example_config "fromisoformat 7202"
      "''Z''" store_ABC ?B "Load_page ''B''"]
    u c b z s f o
  show ?thesis by simp
qed

text \<open>
  C9. Without a limit, \<open>get_saved_pages\<close> on an empty Pages table and
  \<open>get_saved_searches\<close> on an empty Searches table return the empty list. Neither
  method returns None for any limit and store: \<open>fetchall\<close> gives a list.
\<close>

theorem no_rows_give_empty_list:
  "(Pages db = [] \<longrightarrow> get_saved_pages None db = (Inr (Some []), db))
   \<and> (Searches db = [] \<longrightarrow> get_saved_searches None db = (Inr (Some []), db))
   \<and> fst (get_saved_pages limit db) \<noteq> Inr None
   \<and> fst (get_saved_searches limit db) \<noteq> Inr None"
  by (cases limit)
     (simp_all add: get_saved_pages_None get_saved_pages_Some get_saved_searches_None
        get_saved_searches_Some)

theorem no_rows_give_empty_list_witness:
  "Pages create_tables = [] \<and> Searches create_tables = []
   \<and> get_saved_pages None create_tables = (Inr (Some []), create_tables)
   \<and> get_saved_searches None create_tables = (Inr (Some []), create_tables)"
proof -
  have e: "Pages create_tables = []" "Searches create_tables = []"
    by (simp_all add: create_tables_def)
  from no_rows_give_empty_list [of create_tables None] e show ?thesis by simp
qed

text \<open>
  C10. What \<open>get_saved_pages\<close> returns does not depend on the content column: replacing
  the content of every page leaves the outcome as it was, for every limit. Every tuple it
  returns is the id, name and time of a page when there is no limit, and its id and name
  when there is one (the statement with a limit raises before it returns a tuple, see C4).
  \<open>get_saved_searches\<close> does not read the Pages table at all, and \<open>load_page\<close> is the
  method that gives the content of a fresh page back.
\<close>

theorem get_saved_pages_never_returns_content:
  "fst (get_saved_pages limit (db\<lparr>Pages := map (\<lambda>r. r\<lparr>P_content := c r\<rparr>) (Pages db)\<rparr>))
     = fst (get_saved_pages limit db)
   \<and> (fst (get_saved_pages limit db) = Inr (Some tuples) \<longrightarrow>
        (\<forall>t \<in> set tuples. \<exists>r \<in> set (Pages db).
           (case limit of
              None \<Rightarrow> t = [Integer (P_id r), Text (P_name r), LocalTime (P_datetime r)]
            | Some l \<Rightarrow> t = [Integer (P_id r), Text (P_name r)])))
   \<and> fst (get_saved_searches limit (db\<lparr>Pages := ps\<rparr>)) = fst (get_saved_searches limit db)
   \<and> (DB_USE_SAVED_PAGES cfg \<and> names_unique db \<and> row \<in> set (Pages db)
        \<and> \<not> page_needs_update ts cfg now (fromisoformat (P_datetime row)) \<longrightarrow>
        fst (load_page ts cfg now (P_name row) db)
          = Inr (Some \<lparr>page_text = P_content row, page_title = P_name row\<rparr>))"
proof -
  have 2: "fst (get_saved_pages limit db) = Inr (Some tuples) \<longrightarrow>
        (\<forall>t \<in> set tuples. \<exists>r \<in> set (Pages db).
           (case limit of
              None \<Rightarrow> t = [Integer (P_id r), Text (P_name r), LocalTime (P_datetime r)]
            | Some l \<Rightarrow> t = [Integer (P_id r), Text (P_name r)]))"
  proof
    assume "fst (get_saved_pages limit db) = Inr (Some tuples)"
    then have "limit = None" and "tuples = map page_tuple (sort_key P_id (Pages db))"
      using get_saved_pages_tuples [of limit db tuples] by simp_all
    then show "\<forall>t \<in> set tuples. \<exists>r \<in> set (Pages db).
           (case limit of
              None \<Rightarrow> t = [Integer (P_id r), Text (P_name r), LocalTime (P_datetime r)]
            | Some l \<Rightarrow> t = [Integer (P_id r), Text (P_name r)])"
      by (auto simp: page_tuple_def)
  qed
  have 4: "DB_USE_SAVED_PAGES cfg \<and> names_unique db \<and> row \<in> set (Pages db)
        \<and> \<not> page_needs_update ts cfg now (fromisoformat (P_datetime row)) \<longrightarrow>
        fst (load_page ts cfg now (P_name row) db)
          = Inr (Some \<lparr>page_text = P_content row, page_title = P_name row\<rparr>)"
    using load_page_present [of db row cfg ts now] by (simp add: WikiParser_def)
  from get_saved_pages_ignores_content [where limit = limit and db = db and c = c] 2
    get_saved_searches_ignores_Pages [where limit = limit and db = db and ps = ps] 4
  show ?thesis by blast
qed

theorem get_saved_pages_never_returns_content_witness:
  "fst (get_saved_pages (Some 1)
          (store_page_and_search\<lparr>Pages :=
             map (\<lambda>r. r\<lparr>P_content := ''z''\<rparr>) (Pages store_page_and_search)\<rparr>))
     = fst (get_saved_pages (Some 1) store_page_and_search)
   \<and> fst (get_saved_pages None store_page_and_search)
       = Inr (Some [[Integer 1, Text ''A'', LocalTime 1]])
   \<and> (\<exists>r \<in> set (Pages store_page_and_search).
        [Integer 1, Text ''A'', LocalTime 1]
          = [Integer (P_id r), Text (P_name r), LocalTime (P_datetime r)])
   \<and> DB_USE_SAVED_PAGES example_config \<and> names_unique store_page_and_search
   \<and> \<lparr>P_id = 1, P_name = ''A'', P_content = ''a'', P_datetime = 1\<rparr>
        \<in> set (Pages store_page_and_search)
   \<and> \<not> page_needs_update example_to_seconds example_config (fromisoformat 5) (fromisoformat 1)
   \<and> fst (load_page example_to_seconds example_config (fromisoformat 5) ''A''
        store_page_and_search) = Inr (Some \<lparr>page_text = ''a'', page_title = ''A''\<rparr>)"
proof -
  let ?A = "\<lparr>P_id = 1, P_name = ''A'', P_content = ''a'', P_datetime = 1\<rparr>"
  have g: "fst (get_saved_pages None store_page_and_search)
       = Inr (Some [[Integer 1, Text ''A'', LocalTime 1]])" by code_simp
  have c: "DB_USE_SAVED_PAGES example_config" by code_simp
  have u: "names_unique store_page_and_search" by code_simp
  have a: "?A \<in> set (Pages store_page_and_search)" by code_simp
  have f: "\<not> page_needs_update example_to_seconds example_config (fromisoformat 5)
      (fromisoformat 1)" by code_simp
  from get_saved_pages_never_returns_content [where limit = "Some 1" and db = store_page_and_search
      and c = "\<lambda>r. ''z''" and tuples = "[[Integer 1, Text ''A'', LocalTime 1]]" and ps = "[]"
      and cfg = example_config and row = ?A and ts = example_to_seconds
      and now = "fromisoformat 5"]
    get_saved_pages_never_returns_content [where limit = "None" and db = store_page_and_search
      and c = "\<lambda>r. ''z''" and tuples = "[[Integer 1, Text ''A'', LocalTime 1]]" and ps = "[]"
      and cfg = example_config and row = ?A and ts = example_to_seconds
      and now = "fromisoformat 5"]
    g c u a f
  show ?thesis by simp
qed

end
